theory Spec2Isabelle
  imports Complex_Main "HOL-Library.List_Lexorder"
begin

section \<open>Python strings and cell values\<close>

text \<open>
  A Python \<open>str\<close> is a sequence of Unicode code points; it is modelled as a list of
  natural numbers, so that a letter with a diacritic (\<open>U+00E1\<close>) is one element, as it is
  for Python's \<open>len\<close>, \<open>strip\<close> and \<open>lower\<close>. Column names are ASCII identifiers and are
  kept as HOL strings. \<open>py\<close> turns an ASCII literal into its code points.
\<close>

type_synonym pystr = "nat list"

definition py :: "string \<Rightarrow> pystr" where
  "py s = map of_char s"

text \<open>
  \<open>str.isspace\<close> of one code point, as CPython's \<open>Py_UNICODE_ISSPACE\<close> decides it; this
  is the set \<open>str.strip()\<close> removes at both ends.
\<close>

definition isspace :: "nat \<Rightarrow> bool" where
  "isspace c \<longleftrightarrow>
     (9 \<le> c \<and> c \<le> 13) \<or> (28 \<le> c \<and> c \<le> 32) \<or> c = 0x85 \<or> c = 0xA0 \<or> c = 0x1680 \<or>
     (0x2000 \<le> c \<and> c \<le> 0x200A) \<or> c = 0x2028 \<or> c = 0x2029 \<or> c = 0x202F \<or>
     c = 0x205F \<or> c = 0x3000"

definition strip :: "pystr \<Rightarrow> pystr" where
  "strip s = rev (dropWhile isspace (rev (dropWhile isspace s)))"

text \<open>
  \<open>str.lower\<close>. The case table is given for Basic Latin and the Latin-1 Supplement
  (\<open>U+0000\<close> to \<open>U+00FF\<close>), where lower-casing is one code point to one code point;
  code points above \<open>U+00FF\<close> are left as they are, which is the restriction of this
  model on text.
\<close>

definition lower_cp :: "nat \<Rightarrow> nat" where
  "lower_cp c = (if (65 \<le> c \<and> c \<le> 90) \<or> (192 \<le> c \<and> c \<le> 222 \<and> c \<noteq> 215) then c + 32 else c)"

definition lower :: "pystr \<Rightarrow> pystr" where
  "lower s = map lower_cp s"

text \<open>Decimal rendering of an integer, as \<open>str(i)\<close> gives it.\<close>

fun digits :: "nat \<Rightarrow> pystr" where
  "digits n = (if n < 10 then [48 + n] else digits (n div 10) @ [48 + n mod 10])"

declare digits.simps [simp del]

definition str_int :: "int \<Rightarrow> pystr" where
  "str_int i = (if i < 0 then 45 # digits (nat (- i)) else digits (nat i))"

text \<open>
  One cell of a pandas \<open>DataFrame\<close>: a missing value (\<open>NaN\<close>), a \<open>str\<close>, a \<open>bool\<close>, an
  \<open>int\<close>, or a finite \<open>float\<close>. A finite float is carried by its \<open>str()\<close> rendering,
  which is all the program reads of it.
\<close>

datatype cell = NaN | Str pystr | PyBool bool | PyInt int | PyFloat pystr

text \<open>\<open>Series.astype(str)\<close>, cell by cell.\<close>

fun astype_str :: "cell \<Rightarrow> pystr" where
  "astype_str NaN = py ''nan''"
| "astype_str (Str s) = s"
| "astype_str (PyBool b) = (if b then py ''True'' else py ''False'')"
| "astype_str (PyInt i) = str_int i"
| "astype_str (PyFloat r) = r"

text \<open>\<open>Series.fillna("")\<close>, cell by cell.\<close>

fun fillna_empty :: "cell \<Rightarrow> cell" where
  "fillna_empty NaN = Str []"
| "fillna_empty c = c"

section \<open>Tables\<close>

text \<open>
  A \<open>DataFrame\<close> with a default integer index: its column names, in order, and its rows.
  \<open>cell_at df r c\<close> reads column \<open>c\<close> of row \<open>r\<close>; a row that is shorter than the list
  of columns reads as missing there, as pandas pads it.
\<close>

record frame =
  columns :: "string list"
  data :: "cell list list"

definition cell_in :: "string list \<Rightarrow> cell list \<Rightarrow> string \<Rightarrow> cell" where
  "cell_in cols r c = (case map_of (zip cols r) c of Some v \<Rightarrow> v | None \<Rightarrow> NaN)"

definition cell_at :: "frame \<Rightarrow> cell list \<Rightarrow> string \<Rightarrow> cell" where
  "cell_at df r c = cell_in (columns df) r c"

definition FIRST :: string where "FIRST = ''first_name''"
definition LAST :: string where "LAST = ''last_name''"
definition FILE :: string where "FILE = ''file_name''"
definition SEEN :: string where "SEEN = ''seen''"
definition INTEND :: string where "INTEND = ''intend_view''"
definition SAVE :: string where "SAVE = ''cv_saved''"
definition CONT :: string where "CONT = ''contacted''"

definition TEXT_COLS :: "string list" where
  "TEXT_COLS = [FIRST, LAST, FILE]"

definition BOOL_COLS :: "string list" where
  "BOOL_COLS = [SEEN, INTEND, SAVE, CONT]"

definition ALL_COLS :: "string list" where
  "ALL_COLS = TEXT_COLS @ BOOL_COLS"

section \<open>Schema normalizer (\<open>_ensure_schema\<close>, the same in both apps)\<close>

text \<open>
  The dictionary of \<open>ser.map({...})\<close>; a value that is not a key maps to \<open>NaN\<close>, which
  \<open>fillna(False)\<close> turns into \<open>False\<close>.
\<close>

definition flag_map :: "(pystr \<times> bool) list" where
  "flag_map =
     [(py ''true'', True), (py ''1'', True), (py ''yes'', True), (py ''y'', True),
      (py ''false'', False), (py ''0'', False), (py ''no'', False), (py ''n'', False)]"

definition coerce_flag :: "cell \<Rightarrow> bool" where
  "coerce_flag v =
     (case map_of flag_map (lower (strip (astype_str v))) of Some b \<Rightarrow> b | None \<Rightarrow> False)"

definition ensure_text :: "frame \<Rightarrow> cell list \<Rightarrow> string \<Rightarrow> cell" where
  "ensure_text df r c = (if c \<in> set (columns df) then cell_at df r c else Str [])"

definition ensure_bool :: "frame \<Rightarrow> cell list \<Rightarrow> string \<Rightarrow> cell" where
  "ensure_bool df r c =
     (if c \<in> set (columns df) then PyBool (coerce_flag (cell_at df r c)) else PyBool False)"

definition ensure_row :: "frame \<Rightarrow> cell list \<Rightarrow> cell list" where
  "ensure_row df r = map (ensure_text df r) TEXT_COLS @ map (ensure_bool df r) BOOL_COLS"

definition ensure_schema :: "frame \<Rightarrow> frame" where
  "ensure_schema df = \<lparr>columns = ALL_COLS, data = map (ensure_row df) (data df)\<rparr>"

section \<open>Record keys in the apps (\<open>_key\<close>, the same in both apps)\<close>

text \<open>
  \<open>_key\<close> builds, row by row,
  \<open>strip(lower)\<close> of the first name, \<open>"||"\<close>, the same of the last name, \<open>"||"\<close>, and the
  stripped file reference. Each component is first passed through \<open>fillna("")\<close> and
  \<open>astype(str)\<close>. It does not call \<open>_norm\<close>: no diacritic is removed and the file
  reference keeps its letter case.
\<close>

definition key_text :: "cell \<Rightarrow> pystr" where
  "key_text v = astype_str (fillna_empty v)"

definition key_of :: "cell \<Rightarrow> cell \<Rightarrow> cell \<Rightarrow> pystr" where
  "key_of fname lname fref =
     lower (strip (key_text fname)) @ py ''||'' @
     lower (strip (key_text lname)) @ py ''||'' @
     strip (key_text fref)"

definition key :: "frame \<Rightarrow> cell list \<Rightarrow> pystr" where
  "key df r = key_of (cell_at df r FIRST) (cell_at df r LAST) (cell_at df r FILE)"

section \<open>Three-way merge (\<open>_three_way_merge\<close>, Capgemini app)\<close>

datatype error =
    ValueError      \<comment> \<open>pandas: cannot reindex on an axis with duplicate labels\<close>
  | RemoteError     \<comment> \<open>any exception of a download or of the HTTP fetch\<close>

text \<open>\<open>_index_by_key\<close>: the normalized table with the key of each row as its label.\<close>

definition index_by_key :: "frame \<Rightarrow> (pystr \<times> cell list) list" where
  "index_by_key df = (let d = ensure_schema df in map (\<lambda>r. (key d r, r)) (data d))"

definition keys_of :: "frame \<Rightarrow> pystr list" where
  "keys_of df = map fst (index_by_key df)"

text \<open>
  \<open>Index.union\<close> with the default \<open>sort=None\<close>: when the other index is empty or both
  are equal the left index is returned as it is, when the left one is empty the other
  one is returned, and otherwise the result is sorted and holds every label as often as
  the index that holds it most often. The labels are Python strings, ordered by code
  point.
\<close>

definition index_union :: "pystr list \<Rightarrow> pystr list \<Rightarrow> pystr list" where
  "index_union xs ys =
     (if ys = [] \<or> xs = ys then xs
      else if xs = [] then ys
      else sort (xs @ fold remove1 xs ys))"

text \<open>
  \<open>DataFrame.reindex\<close>: a table whose labels equal the target is copied; otherwise a
  table with a repeated label raises \<open>ValueError\<close>, and a table with unique labels gives,
  for each target label, its row or a row of missing values.
\<close>

definition reindex :: "(pystr \<times> cell list) list \<Rightarrow> pystr list \<Rightarrow> error + cell list list" where
  "reindex tbl idx =
     (if map fst tbl = idx then Inr (map snd tbl)
      else if \<not> distinct (map fst tbl) then Inl ValueError
      else Inr (map (\<lambda>k. case map_of tbl k of Some r \<Rightarrow> r
                           | None \<Rightarrow> replicate (length ALL_COLS) NaN) idx))"

text \<open>
  Nullable values: \<open>None\<close> is \<open>pd.NA\<close>. Comparison gives \<open>NA\<close> when either side is
  \<open>NA\<close>; \<open>&\<close> and \<open>~\<close> follow Kleene logic; a mask used as an indexer counts \<open>NA\<close>
  as \<open>False\<close>.
\<close>

definition ne3 :: "'a option \<Rightarrow> 'a option \<Rightarrow> bool option" where
  "ne3 x y = (case x of None \<Rightarrow> None
              | Some a \<Rightarrow> (case y of None \<Rightarrow> None | Some b \<Rightarrow> Some (a \<noteq> b)))"

fun and3 :: "bool option \<Rightarrow> bool option \<Rightarrow> bool option" where
  "and3 (Some False) y = Some False"
| "and3 x (Some False) = Some False"
| "and3 (Some True) (Some True) = Some True"
| "and3 x y = None"

fun not3 :: "bool option \<Rightarrow> bool option" where
  "not3 None = None"
| "not3 (Some b) = Some (\<not> b)"

definition mask :: "bool option \<Rightarrow> bool" where
  "mask m \<longleftrightarrow> m = Some True"

text \<open>\<open>astype("string")\<close> and \<open>astype("boolean")\<close>, cell by cell. The flag columns
  of a normalized and reindexed table hold only booleans and missing values.\<close>

fun astype_string :: "cell \<Rightarrow> pystr option" where
  "astype_string NaN = None"
| "astype_string c = Some (astype_str c)"

fun astype_boolean :: "cell \<Rightarrow> bool option" where
  "astype_boolean (PyBool b) = Some b"
| "astype_boolean c = None"

text \<open>
  One text cell of the merge: the masks \<open>only_o\<close>, \<open>only_t\<close> and \<open>both\<close>, the three
  assignments in the order of the source, and \<open>fillna("")\<close>. The second component says
  whether this cell is in \<open>both\<close>, that is, whether a conflict is recorded for it.
\<close>

definition merge_text :: "cell \<Rightarrow> cell \<Rightarrow> cell \<Rightarrow> cell \<times> bool" where
  "merge_text bc oc tc =
     (let vb = astype_string bc; vo = astype_string oc; vt = astype_string tc;
          changed_o = ne3 vo vb;
          changed_t = ne3 vt vb;
          only_o = and3 changed_o (not3 changed_t);
          only_t = and3 changed_t (not3 changed_o);
          both = and3 changed_o changed_t;
          col0 = vt;
          col1 = (if mask only_o then vo else col0);
          col2 = (if mask only_t then vt else col1);
          col3 = (if mask both then vo else col2)
      in (case col3 of None \<Rightarrow> Str [] | Some s \<Rightarrow> Str s, mask both))"

text \<open>
  One flag cell of the merge. Nothing is appended to \<open>conflicts\<close> in this loop of the
  source.
\<close>

definition merge_bool :: "cell \<Rightarrow> cell \<Rightarrow> cell \<Rightarrow> cell" where
  "merge_bool bc oc tc =
     (let vb = astype_boolean bc; vo = astype_boolean oc; vt = astype_boolean tc;
          changed_o = and3 (ne3 vo vb) (Some (\<not> (vo = None \<and> vb = None)));
          changed_t = and3 (ne3 vt vb) (Some (\<not> (vt = None \<and> vb = None)));
          only_o = and3 changed_o (not3 changed_t);
          only_t = and3 changed_t (not3 changed_o);
          both = and3 changed_o changed_t;
          col0 = vt;
          col1 = (if mask only_o then vo else col0);
          col2 = (if mask only_t then vt else col1);
          col3 = (if mask both
                  then Some ((case vo of None \<Rightarrow> False | Some x \<Rightarrow> x) \<or>
                             (case vt of None \<Rightarrow> False | Some x \<Rightarrow> x))
                  else col2)
      in PyBool (case col3 of None \<Rightarrow> False | Some x \<Rightarrow> x))"

definition merge_row :: "cell list \<Rightarrow> cell list \<Rightarrow> cell list \<Rightarrow> cell list" where
  "merge_row rb ro rt =
     map (\<lambda>c. fst (merge_text (cell_in ALL_COLS rb c) (cell_in ALL_COLS ro c) (cell_in ALL_COLS rt c)))
       TEXT_COLS @
     map (\<lambda>c. merge_bool (cell_in ALL_COLS rb c) (cell_in ALL_COLS ro c) (cell_in ALL_COLS rt c))
       BOOL_COLS"

text \<open>The entry of the conflict list: the field name, an at sign and the key.\<close>

definition conflict_entry :: "string \<Rightarrow> pystr \<Rightarrow> pystr" where
  "conflict_entry c k = py c @ py ''@'' @ k"

definition conflicts_of ::
  "pystr list \<Rightarrow> cell list list \<Rightarrow> cell list list \<Rightarrow> cell list list \<Rightarrow> pystr list" where
  "conflicts_of idx Bs Os Ts =
     concat (map (\<lambda>c.
       map (\<lambda>(k, rb, ro, rt). conflict_entry c k)
         (filter (\<lambda>(k, rb, ro, rt).
             snd (merge_text (cell_in ALL_COLS rb c) (cell_in ALL_COLS ro c) (cell_in ALL_COLS rt c)))
           (zip idx (zip Bs (zip Os Ts)))))
       TEXT_COLS)"

text \<open>\<open>all_idx\<close>, the union of the three key indexes; the merged rows follow its order.\<close>

definition merge_index :: "frame \<Rightarrow> frame \<Rightarrow> frame \<Rightarrow> pystr list" where
  "merge_index base ours theirs =
     index_union (index_union (keys_of base) (keys_of ours)) (keys_of theirs)"

definition three_way_merge :: "frame \<Rightarrow> frame \<Rightarrow> frame \<Rightarrow> error + (frame \<times> pystr list)" where
  "three_way_merge base ours theirs =
     (let all_idx = merge_index base ours theirs in
      case reindex (index_by_key base) all_idx of Inl e \<Rightarrow> Inl e | Inr Bs \<Rightarrow>
      (case reindex (index_by_key ours) all_idx of Inl e \<Rightarrow> Inl e | Inr Os \<Rightarrow>
      (case reindex (index_by_key theirs) all_idx of Inl e \<Rightarrow> Inl e | Inr Ts \<Rightarrow>
         Inr (\<lparr>columns = ALL_COLS,
               data = map (\<lambda>(rb, ro, rt). merge_row rb ro rt) (zip Bs (zip Os Ts))\<rparr>,
              conflicts_of all_idx Bs Os Ts))))"


text \<open>
  The row a table holds for a key and the rows \<open>reindex\<close> gives for a table with unique
  labels; both are used to state properties of the merge, not by the merge itself.
\<close>

definition row_of :: "frame \<Rightarrow> pystr \<Rightarrow> cell list option" where
  "row_of df k = map_of (index_by_key df) k"


text \<open>
  A table of the data model: exactly the canonical columns, every text cell a string and
  every flag cell a boolean.
\<close>

definition is_str :: "cell \<Rightarrow> bool" where
  "is_str c = (case c of Str s \<Rightarrow> True | _ \<Rightarrow> False)"

definition is_bool :: "cell \<Rightarrow> bool" where
  "is_bool c = (case c of PyBool b \<Rightarrow> True | _ \<Rightarrow> False)"

definition canonical_row :: "cell list \<Rightarrow> bool" where
  "canonical_row r \<longleftrightarrow>
     length r = length ALL_COLS \<and> list_all is_str (take 3 r) \<and> list_all is_bool (drop 3 r)"

definition canonical :: "frame \<Rightarrow> bool" where
  "canonical X \<longleftrightarrow> columns X = ALL_COLS \<and> list_all canonical_row (data X)"

text \<open>Tables used as concrete inputs.\<close>

definition alice :: "bool \<Rightarrow> bool \<Rightarrow> frame" where
  "alice s i =
     \<lparr>columns = ALL_COLS,
      data = [[Str (py ''Alice''), Str (py ''Smith''), Str (py ''cv1.pdf''),
               PyBool s, PyBool i, PyBool False, PyBool False]]\<rparr>"




text \<open>The keys of the rows of \<open>alice\<close> and of \<open>bob\<close>.\<close>

definition alice_key :: pystr where
  "alice_key = py ''alice'' @ py ''||'' @ py ''smith'' @ py ''||'' @ py ''cv1.pdf''"


section \<open>The persisted format (\<open>write_state_df\<close>, \<open>fetch_state_df\<close>)\<close>

text \<open>
  The persisted file is modelled as its header and its matrix of fields; how the CSV
  writer quotes a field and how the reader undoes it is below this model. \<open>to_csv\<close>
  writes a missing value as the empty field, a string as it is and a number in decimal.
\<close>

record csv =
  header :: "string list"
  records :: "pystr list list"

fun to_csv_field :: "cell \<Rightarrow> pystr" where
  "to_csv_field NaN = []"
| "to_csv_field c = astype_str c"

definition to_csv :: "frame \<Rightarrow> csv" where
  "to_csv df = \<lparr>header = columns df, records = map (map to_csv_field) (data df)\<rparr>"

text \<open>\<open>out[c] = out[c].astype(int)\<close> for the flag columns: a boolean becomes 0 or 1.\<close>

fun astype_int :: "cell \<Rightarrow> cell" where
  "astype_int (PyBool b) = PyInt (if b then 1 else 0)"
| "astype_int c = c"

definition map_columns :: "(cell \<Rightarrow> cell) \<Rightarrow> string list \<Rightarrow> frame \<Rightarrow> frame" where
  "map_columns f cs df =
     df\<lparr>data := map (\<lambda>r. map (\<lambda>(n, v). if n \<in> set cs then f v else v) (zip (columns df) r))
                   (data df)\<rparr>"

text \<open>
  The body of \<open>write_state_df\<close> up to the upload, which is also the write step of the
  Capgemini \<open>_flush_to_disk\<close>: normalize, flags to 0/1, \<open>to_csv(index=False)\<close>.
\<close>

definition serialize_state :: "frame \<Rightarrow> csv" where
  "serialize_state df = to_csv (map_columns astype_int BOOL_COLS (ensure_schema df))"

text \<open>
  \<open>pd.read_csv\<close> with its defaults, column by column. A field that is one of the
  default missing-value markers reads as \<open>NaN\<close>. A column all of whose fields are
  integer literals (at least one row) is read as integers; every other column is kept
  as text. Columns that pandas would read as floating point or as booleans, and integer
  literals with blanks around them or outside 64 bits, are not covered: this model keeps
  them as text.
\<close>

definition na_values :: "pystr list" where
  "na_values = map py [[], ''#N/A'', ''#N/A N/A'', ''#NA'', ''-1.#IND'', ''-1.#QNAN'', ''-NaN'',
     ''-nan'', ''1.#IND'', ''1.#QNAN'', ''<NA>'', ''N/A'', ''NA'', ''NULL'', ''NaN'', ''None'',
     ''n/a'', ''nan'', ''null'']"

definition is_digit :: "nat \<Rightarrow> bool" where
  "is_digit c \<longleftrightarrow> 48 \<le> c \<and> c \<le> 57"

definition is_int_literal :: "pystr \<Rightarrow> bool" where
  "is_int_literal s =
     (case s of [] \<Rightarrow> False
      | c # cs \<Rightarrow> if c = 45 \<or> c = 43 then cs \<noteq> [] \<and> list_all is_digit cs
                  else list_all is_digit s)"

definition nat_of_digits :: "pystr \<Rightarrow> nat" where
  "nat_of_digits s = foldl (\<lambda>n c. 10 * n + (c - 48)) 0 s"

definition int_of_literal :: "pystr \<Rightarrow> int" where
  "int_of_literal s =
     (case s of [] \<Rightarrow> 0
      | c # cs \<Rightarrow> if c = 45 then - int (nat_of_digits cs)
                  else if c = 43 then int (nat_of_digits cs)
                  else int (nat_of_digits s))"

definition field_at :: "pystr list \<Rightarrow> nat \<Rightarrow> pystr" where
  "field_at r j = (if j < length r then r ! j else [])"

definition int_column :: "csv \<Rightarrow> nat \<Rightarrow> bool" where
  "int_column f j \<longleftrightarrow> records f \<noteq> [] \<and> list_all (\<lambda>r. is_int_literal (field_at r j)) (records f)"

definition parse_field :: "bool \<Rightarrow> pystr \<Rightarrow> cell" where
  "parse_field as_int s =
     (if as_int then PyInt (int_of_literal s)
      else if s \<in> set na_values then NaN
      else Str s)"

definition read_csv :: "csv \<Rightarrow> frame" where
  "read_csv f =
     \<lparr>columns = header f,
      data = map (\<lambda>r. map (\<lambda>j. parse_field (int_column f j) (field_at r j))
                         [0..<length (header f)])
               (records f)\<rparr>"

text \<open>
  The flag \<open>_ensure_schema\<close> gives a row for a flag column, the field \<open>to_csv\<close> writes
  for a flag, and the record \<open>write_state_df\<close> writes for a row; they are used to state
  and prove the properties of the persisted format.
\<close>

definition ensured_flag :: "frame \<Rightarrow> cell list \<Rightarrow> string \<Rightarrow> bool" where
  "ensured_flag T r c = (c \<in> set (columns T) \<and> coerce_flag (cell_at T r c))"

definition bit :: "bool \<Rightarrow> pystr" where
  "bit b = (if b then [49] else [48])"

definition stored_row :: "frame \<Rightarrow> cell list \<Rightarrow> pystr list" where
  "stored_row T r =
     [to_csv_field (ensure_text T r FIRST), to_csv_field (ensure_text T r LAST),
      to_csv_field (ensure_text T r FILE), bit (ensured_flag T r SEEN),
      bit (ensured_flag T r INTEND), bit (ensured_flag T r SAVE), bit (ensured_flag T r CONT)]"

text \<open>A table with one row whose file reference is the empty string.\<close>

definition no_file :: frame where
  "no_file =
     \<lparr>columns = ALL_COLS,
      data = [[Str (py ''Alice''), Str (py ''Smith''), Str [],
               PyBool True, PyBool False, PyBool False, PyBool False]]\<rparr>"

section \<open>Session state and flush (\<open>_flush_to_disk\<close> of both apps)\<close>

text \<open>
  \<open>st.session_state\<close>, with the keys either app uses. Times are readings of
  \<open>time.time()\<close>, taken as real numbers. The Schneider app never sets \<open>base_df\<close>.
\<close>

record session =
  df :: frame
  base_df :: "frame option"
  buffer_dirty :: bool
  last_batch_write :: real
  last_save_ts :: real
  last_auto_save :: real
  q :: pystr
  prev_q :: pystr
  want_save :: bool

text \<open>
  What the outside world answers during one flush: the download through the Dropbox
  API and the fetch of the shared link (each the table \<open>pd.read_csv\<close> returned, or an
  exception), whether the upload of a payload succeeds, whether a Dropbox client exists,
  and the clock.
\<close>

record remote =
  dbx_download :: "error + frame"
  shared_fetch :: "error + frame"
  upload_ok :: "csv \<Rightarrow> bool"
  dbx_configured :: bool
  clock :: real

datatype notice = StToast string | StWarning nat | StError string

text \<open>The two assignments every flush makes before it looks at the upload's result.\<close>

definition flush_flags :: "real \<Rightarrow> session \<Rightarrow> session" where
  "flush_flags t s = s\<lparr>last_batch_write := t, buffer_dirty := False\<rparr>"

text \<open>
  The inner \<open>try\<close> of the Capgemini flush: \<open>_download_current_df_from_dbx()\<close>, and
  \<open>fetch_state_df()\<close> when that raises. Both normalize what they read.
\<close>

definition fetch_remote :: "remote \<Rightarrow> error + frame" where
  "fetch_remote env =
     (case dbx_download env of
        Inr d \<Rightarrow> Inr (ensure_schema d)
      | Inl e \<Rightarrow> (case shared_fetch env of Inr d \<Rightarrow> Inr (ensure_schema d) | Inl e' \<Rightarrow> Inl e'))"

text \<open>
  Capgemini \<open>_flush_to_disk\<close>. The result is the new session state, the notices shown
  and the payloads handed to the upload. An exception of the fetch or of the merge is
  caught by the outer \<open>except\<close>: only \<open>st.error\<close> is shown.
\<close>

definition flush_to_disk_capgemini ::
  "remote \<Rightarrow> string \<Rightarrow> string \<Rightarrow> session \<Rightarrow> session \<times> notice list \<times> csv list" where
  "flush_to_disk_capgemini env ok_text err_text s =
     (case fetch_remote env of
        Inl e \<Rightarrow> (s, [StError err_text], [])
      | Inr remote_df \<Rightarrow>
          (let base = (case base_df s of None \<Rightarrow> remote_df | Some b \<Rightarrow> b) in
           case three_way_merge base (df s) remote_df of
             Inl e \<Rightarrow> (s, [StError err_text], [])
           | Inr (merged, conflicts) \<Rightarrow>
               (let payload = serialize_state merged;
                    ok = upload_ok env payload;
                    s1 = flush_flags (clock env) s
                in if ok
                   then (s1\<lparr>df := merged, base_df := Some (ensure_schema merged)\<rparr>,
                         (if conflicts \<noteq> [] then [StWarning (length conflicts)] else []) @
                           [StToast ok_text],
                         [payload])
                   else (s1, [StError err_text], [payload]))))"

text \<open>Schneider \<open>write_state_df\<close> and \<open>_flush_to_disk\<close>: no fetch, no merge, no base.\<close>

definition write_state_df :: "remote \<Rightarrow> frame \<Rightarrow> bool \<times> csv list" where
  "write_state_df env full_df =
     (if \<not> dbx_configured env then (False, [])
      else (upload_ok env (serialize_state full_df), [serialize_state full_df]))"

definition flush_to_disk_schneider ::
  "remote \<Rightarrow> string \<Rightarrow> string \<Rightarrow> session \<Rightarrow> session \<times> notice list \<times> csv list" where
  "flush_to_disk_schneider env ok_text err_text s =
     (let (ok, sent) = write_state_df env (df s);
          s1 = flush_flags (clock env) s
      in (s1, [if ok then StToast ok_text else StError err_text], sent))"

text \<open>Concrete sessions and worlds.\<close>

definition session0 :: session where
  "session0 =
     \<lparr>df = alice True False, base_df = Some (alice False False), buffer_dirty = True,
      last_batch_write = 0, last_save_ts = 0, last_auto_save = 0, q = [], prev_q = [],
      want_save = False\<rparr>"

definition world :: "bool \<Rightarrow> real \<Rightarrow> remote" where
  "world up t =
     \<lparr>dbx_download = Inr (alice False True), shared_fetch = Inl RemoteError,
      upload_ok = (\<lambda>payload. up), dbx_configured = True, clock = t\<rparr>"

section \<open>Save policy (the script body of each app after the search box)\<close>









section \<open>The helper module (\<open>utils.py\<close>): \<open>_norm\<close>, \<open>_key_series\<close>, \<open>update_flag\<close>\<close>

text \<open>
  \<open>unicodedata.normalize("NFKD", s)\<close> and \<open>unicodedata.combining(ch)\<close> read the Unicode
  character database. Its entries are given here for the code points up to \<open>U+00FF\<close>:
  the canonical and compatibility decompositions of the Latin-1 Supplement. None of them
  starts with a combining mark, so on text of this range the normal form is the
  concatenation of the decompositions. The marks are those of the block
  \<open>U+0300\<close> to \<open>U+036F\<close> (all of combining class above zero but \<open>U+034F\<close>).
\<close>

definition decomposition :: "(nat \<times> nat list) list" where
  "decomposition =
     [(0xA0, [0x20]), (0xA8, [0x20, 0x308]), (0xAA, [0x61]), (0xAF, [0x20, 0x304]),
      (0xB2, [0x32]), (0xB3, [0x33]), (0xB4, [0x20, 0x301]), (0xB5, [0x3BC]),
      (0xB8, [0x20, 0x327]), (0xB9, [0x31]), (0xBA, [0x6F]),
      (0xBC, [0x31, 0x2044, 0x34]), (0xBD, [0x31, 0x2044, 0x32]), (0xBE, [0x33, 0x2044, 0x34]),
      (0xC0, [0x41, 0x300]), (0xC1, [0x41, 0x301]), (0xC2, [0x41, 0x302]), (0xC3, [0x41, 0x303]),
      (0xC4, [0x41, 0x308]), (0xC5, [0x41, 0x30A]), (0xC7, [0x43, 0x327]),
      (0xC8, [0x45, 0x300]), (0xC9, [0x45, 0x301]), (0xCA, [0x45, 0x302]), (0xCB, [0x45, 0x308]),
      (0xCC, [0x49, 0x300]), (0xCD, [0x49, 0x301]), (0xCE, [0x49, 0x302]), (0xCF, [0x49, 0x308]),
      (0xD1, [0x4E, 0x303]),
      (0xD2, [0x4F, 0x300]), (0xD3, [0x4F, 0x301]), (0xD4, [0x4F, 0x302]), (0xD5, [0x4F, 0x303]),
      (0xD6, [0x4F, 0x308]),
      (0xD9, [0x55, 0x300]), (0xDA, [0x55, 0x301]), (0xDB, [0x55, 0x302]), (0xDC, [0x55, 0x308]),
      (0xDD, [0x59, 0x301]),
      (0xE0, [0x61, 0x300]), (0xE1, [0x61, 0x301]), (0xE2, [0x61, 0x302]), (0xE3, [0x61, 0x303]),
      (0xE4, [0x61, 0x308]), (0xE5, [0x61, 0x30A]), (0xE7, [0x63, 0x327]),
      (0xE8, [0x65, 0x300]), (0xE9, [0x65, 0x301]), (0xEA, [0x65, 0x302]), (0xEB, [0x65, 0x308]),
      (0xEC, [0x69, 0x300]), (0xED, [0x69, 0x301]), (0xEE, [0x69, 0x302]), (0xEF, [0x69, 0x308]),
      (0xF1, [0x6E, 0x303]),
      (0xF2, [0x6F, 0x300]), (0xF3, [0x6F, 0x301]), (0xF4, [0x6F, 0x302]), (0xF5, [0x6F, 0x303]),
      (0xF6, [0x6F, 0x308]),
      (0xF9, [0x75, 0x300]), (0xFA, [0x75, 0x301]), (0xFB, [0x75, 0x302]), (0xFC, [0x75, 0x308]),
      (0xFD, [0x79, 0x301]), (0xFF, [0x79, 0x308])]"

definition nfkd :: "pystr \<Rightarrow> pystr" where
  "nfkd s = concat (map (\<lambda>c. case map_of decomposition c of Some d \<Rightarrow> d | None \<Rightarrow> [c]) s)"

definition combining :: "nat \<Rightarrow> bool" where
  "combining c \<longleftrightarrow> 0x300 \<le> c \<and> c \<le> 0x36F \<and> c \<noteq> 0x34F"

text \<open>\<open>_norm\<close> of \<open>utils.py\<close> on a string: strip, decompose, drop the combining marks.\<close>

definition norm_utils :: "pystr \<Rightarrow> pystr" where
  "norm_utils s = filter (\<lambda>ch. \<not> combining ch) (nfkd (strip s))"

text \<open>
  \<open>_key_series\<close>, row by row: the names go through \<open>_norm\<close>, \<open>lower\<close> and \<open>strip\<close>, the
  file name through \<open>lower\<close> and \<open>strip\<close> only.
\<close>

definition key_series_of :: "cell \<Rightarrow> cell \<Rightarrow> cell \<Rightarrow> pystr" where
  "key_series_of fname lname fref =
     strip (lower (norm_utils (key_text fname))) @ py ''||'' @
     strip (lower (norm_utils (key_text lname))) @ py ''||'' @
     strip (lower (key_text fref))"

definition key_series :: "frame \<Rightarrow> cell list \<Rightarrow> pystr" where
  "key_series X r = key_series_of (cell_at X r FIRST) (cell_at X r LAST) (cell_at X r FILE)"

definition STATE_COLS :: "string list" where
  "STATE_COLS = [SEEN, INTEND, SAVE, CONT]"

text \<open>\<open>df[c] = v\<close> for a column the table does not have: the column is added last.\<close>

definition add_column :: "string \<Rightarrow> cell \<Rightarrow> frame \<Rightarrow> frame" where
  "add_column c v X = \<lparr>columns = columns X @ [c], data = map (\<lambda>r. r @ [v]) (data X)\<rparr>"

text \<open>Python's \<open>bool(x)\<close>, which \<open>astype(bool)\<close> applies to each cell.\<close>

fun truthy :: "cell \<Rightarrow> bool" where
  "truthy NaN = True"
| "truthy (Str s) = (s \<noteq> [])"
| "truthy (PyBool b) = b"
| "truthy (PyInt i) = (i \<noteq> 0)"
| "truthy (PyFloat r) = (r \<noteq> py ''0.0'' \<and> r \<noteq> py ''-0.0'')"

definition guarantee_text :: "string \<Rightarrow> frame \<Rightarrow> frame" where
  "guarantee_text c X = (if c \<notin> set (columns X) then add_column c (Str []) X else X)"

definition guarantee_flag :: "string \<Rightarrow> frame \<Rightarrow> frame" where
  "guarantee_flag c X =
     (if c \<notin> set (columns X) then add_column c (PyBool False) X
      else map_columns (\<lambda>v. PyBool (truthy v)) [c] X)"

definition guarantee_columns :: "frame \<Rightarrow> frame" where
  "guarantee_columns X = fold guarantee_flag STATE_COLS (fold guarantee_text [FIRST, LAST, FILE] X)"

text \<open>
  The row \<open>pd.concat\<close> appends for \<open>new_row\<close>: the table's columns keep their order and
  a column the dictionary does not name is missing in the new row.
\<close>

definition new_row :: "pystr \<Rightarrow> pystr \<Rightarrow> pystr \<Rightarrow> (string \<times> cell) list" where
  "new_row first_name last_name file_name =
     [(FIRST, Str first_name), (LAST, Str last_name), (FILE, Str file_name),
      (SEEN, PyBool False), (INTEND, PyBool False), (SAVE, PyBool False), (CONT, PyBool False)]"

definition append_row :: "(string \<times> cell) list \<Rightarrow> frame \<Rightarrow> frame" where
  "append_row nr X =
     X\<lparr>data := data X @ [map (\<lambda>c. case map_of nr c of Some v \<Rightarrow> v | None \<Rightarrow> NaN) (columns X)]\<rparr>"

text \<open>
  \<open>state_df.loc[idx, col_name] = v\<close>: the cell of column \<open>col_name\<close> in the rows at the
  positions \<open>idx\<close>; a column the table does not have is added, missing elsewhere.
\<close>

definition set_cell :: "string list \<Rightarrow> string \<Rightarrow> cell \<Rightarrow> cell list \<Rightarrow> cell list" where
  "set_cell cols c v r = map (\<lambda>(n, x). if n = c then v else x) (zip cols r)"

definition loc_set :: "nat list \<Rightarrow> string \<Rightarrow> cell \<Rightarrow> frame \<Rightarrow> frame" where
  "loc_set idx c v X =
     (if c \<in> set (columns X)
      then X\<lparr>data := map (\<lambda>(i, r). if i \<in> set idx then set_cell (columns X) c v r else r)
                         (zip [0..<length (data X)] (data X))\<rparr>
      else \<lparr>columns = columns X @ [c],
            data = map (\<lambda>(i, r). r @ [if i \<in> set idx then v else NaN])
                     (zip [0..<length (data X)] (data X))\<rparr>)"

text \<open>
  \<open>update_flag\<close>. The names and the file name are strings. The second component is the
  list of tables handed to \<open>save_cb\<close>: the result, once, when a callback is given.
\<close>

definition update_flag ::
  "frame \<Rightarrow> pystr \<Rightarrow> pystr \<Rightarrow> pystr \<Rightarrow> string \<Rightarrow> bool \<Rightarrow> bool \<Rightarrow> frame \<times> frame list" where
  "update_flag state_df first_name last_name file_name col_name val has_cb =
     (let st = guarantee_columns state_df;
          target_key = key_series_of (Str first_name) (Str last_name) (Str file_name);
          idx = filter (\<lambda>i. key_series st (data st ! i) = target_key) [0..<length (data st)];
          st1 = (if idx = [] then append_row (new_row first_name last_name file_name) st else st);
          idx1 = (if idx = [] then [length (data st)] else idx);
          st2 = loc_set idx1 col_name (PyBool val) st1
      in (st2, if has_cb then [st2] else []))"

text \<open>
  A state table as \<open>update_flag\<close> and \<open>merge_base_state\<close> leave it: distinct columns
  among which are the seven canonical ones, full rows, boolean flags.
\<close>

definition state_table :: "frame \<Rightarrow> bool" where
  "state_table X \<longleftrightarrow>
     distinct (columns X) \<and> set ALL_COLS \<subseteq> set (columns X) \<and>
     list_all (\<lambda>r. length r = length (columns X) \<and>
                   list_all (\<lambda>c. is_bool (cell_at X r c)) STATE_COLS) (data X)"

text \<open>The name Kadri, written with \<open>U+00E1\<close> (a with acute) and without the accent.\<close>

definition kadri_accent :: pystr where
  "kadri_accent = [0x4B, 0xE1, 0x64, 0x72, 0x69]"

definition kadri_plain :: pystr where
  "kadri_plain = py ''Kadri''"


section \<open>Properties of the schema normalizer\<close>

lemmas col_defs = FIRST_def LAST_def FILE_def SEEN_def INTEND_def SAVE_def CONT_def
  TEXT_COLS_def BOOL_COLS_def ALL_COLS_def

lemma coerce_flag_PyBool: "coerce_flag (PyBool b) = b"
  by (cases b)
    (simp_all add: coerce_flag_def flag_map_def py_def strip_def lower_def lower_cp_def isspace_def)

lemma ensure_row_again:
  "ensure_row \<lparr>columns = ALL_COLS, data = d\<rparr> (ensure_row T r) = ensure_row T r"
  by (simp add: ensure_row_def ensure_text_def ensure_bool_def cell_at_def cell_in_def col_defs
      coerce_flag_PyBool)

text \<open>
  C7. The schema normalizer is idempotent on every table, whatever columns it has and
  whatever its flag cells hold; it has no failing path: a missing column is filled with
  the default and a flag cell that is not in the dictionary becomes \<open>False\<close>. The result
  always has exactly the seven canonical columns.
\<close>

theorem ensure_schema_idempotent:
  "ensure_schema (ensure_schema T) = ensure_schema T \<and> columns (ensure_schema T) = ALL_COLS"
  by (simp add: ensure_schema_def ensure_row_again)

section \<open>Properties of the merge\<close>

lemma is_strE: "is_str c \<Longrightarrow> (\<And>s. c = Str s \<Longrightarrow> P) \<Longrightarrow> P"
  by (cases c) (simp_all add: is_str_def)

lemma is_boolE: "is_bool c \<Longrightarrow> (\<And>b. c = PyBool b \<Longrightarrow> P) \<Longrightarrow> P"
  by (cases c) (simp_all add: is_bool_def)

lemma length7E:
  assumes "length r = 7"
  obtains x1 x2 x3 x4 x5 x6 x7 where "r = [x1, x2, x3, x4, x5, x6, x7]"
proof -
  from assms obtain x1 r1 where "r = x1 # r1" "length r1 = 6" by (cases r) auto
  moreover then obtain x2 r2 where "r1 = x2 # r2" "length r2 = 5" by (cases r1) auto
  moreover then obtain x3 r3 where "r2 = x3 # r3" "length r3 = 4" by (cases r2) auto
  moreover then obtain x4 r4 where "r3 = x4 # r4" "length r4 = 3" by (cases r3) auto
  moreover then obtain x5 r5 where "r4 = x5 # r5" "length r5 = 2" by (cases r4) auto
  moreover then obtain x6 r6 where "r5 = x6 # r6" "length r6 = 1" by (cases r5) auto
  moreover then obtain x7 where "r6 = [x7]" by (cases r6) auto
  ultimately show ?thesis using that by simp
qed

lemma canonical_rowE:
  assumes "canonical_row r"
  obtains a b c s i v t where "r = [Str a, Str b, Str c, PyBool s, PyBool i, PyBool v, PyBool t]"
proof -
  from assms have "length r = 7" by (simp add: canonical_row_def col_defs)
  then obtain x1 x2 x3 x4 x5 x6 x7 where r: "r = [x1, x2, x3, x4, x5, x6, x7]"
    by (rule length7E)
  from assms r have "is_str x1" "is_str x2" "is_str x3" "is_bool x4" "is_bool x5" "is_bool x6" "is_bool x7"
    by (simp_all add: canonical_row_def)
  then show ?thesis using r that by (elim is_strE is_boolE) simp
qed

lemma ensure_row_canonical:
  "canonical_row r \<Longrightarrow> ensure_row \<lparr>columns = ALL_COLS, data = d\<rparr> r = r"
  by (erule canonical_rowE)
    (simp add: ensure_row_def ensure_text_def ensure_bool_def cell_at_def cell_in_def col_defs
      coerce_flag_PyBool)

lemma ensure_schema_canonical:
  assumes "canonical X"
  shows "ensure_schema X = X"
proof -
  have c: "columns X = ALL_COLS" and r: "list_all canonical_row (data X)"
    using assms by (simp_all add: canonical_def)
  have X: "X = \<lparr>columns = ALL_COLS, data = data X\<rparr>"
    using c by (cases X) simp
  have "map (ensure_row X) (data X) = data X"
  proof (rule map_idI)
    fix x assume "x \<in> set (data X)"
    then have "canonical_row x" using r by (simp add: list_all_iff)
    then have "ensure_row \<lparr>columns = ALL_COLS, data = data X\<rparr> x = x"
      by (rule ensure_row_canonical)
    then show "ensure_row X x = x" using X by simp
  qed
  then show ?thesis using X by (simp add: ensure_schema_def)
qed

lemma index_union_same: "index_union xs xs = xs"
  by (simp add: index_union_def)

















lemma reindex_length: "reindex tbl idx = Inr rows \<Longrightarrow> length rows = length idx"
  by (auto simp: reindex_def split: if_splits)







lemma row_of_length: "row_of X k = Some r \<Longrightarrow> length r = length ALL_COLS"
  by (auto simp: row_of_def index_by_key_def ensure_schema_def ensure_row_def col_defs Let_def
      dest!: map_of_SomeD)








section \<open>Properties of the record key\<close>

















section \<open>Concrete tables\<close>

lemma strip_id:
  assumes "s \<noteq> []" "\<not> isspace (hd s)" "\<not> isspace (last s)"
  shows "strip s = s"
proof -
  have "dropWhile isspace s = s" using assms by (simp add: dropWhile_eq_self_iff)
  moreover have "dropWhile isspace (rev s) = rev s"
    using assms by (simp add: dropWhile_eq_self_iff hd_rev)
  ultimately show ?thesis by (simp add: strip_def)
qed

lemma key_row: "columns X = ALL_COLS \<Longrightarrow> key X (a # b # c # rest) = key_of a b c"
  by (simp add: key_def cell_at_def cell_in_def col_defs)

lemma index_by_key_canonical:
  "canonical X \<Longrightarrow> index_by_key X = map (\<lambda>r. (key X r, r)) (data X)"
  by (simp add: index_by_key_def ensure_schema_canonical)

lemma ne3_Some: "ne3 (Some a) (Some b) = Some (a \<noteq> b)"
  by (simp add: ne3_def)

lemma and3_Some: "and3 (Some x) (Some y) = Some (x \<and> y)"
  by (cases x; cases y) simp_all

lemma merge_text_Str:
  "merge_text (Str b) (Str o') (Str t) = (Str (if o' \<noteq> b then o' else t), o' \<noteq> b \<and> t \<noteq> b)"
  by (auto simp: merge_text_def ne3_Some and3_Some mask_def Let_def)

lemma merge_bool_PyBool:
  "merge_bool (PyBool b) (PyBool o') (PyBool t) = PyBool (if o' \<noteq> b then o' else t)"
  by (auto simp: merge_bool_def ne3_Some and3_Some mask_def Let_def)

lemma merge_row_canonical:
  "merge_row [Str b1, Str b2, Str b3, PyBool b4, PyBool b5, PyBool b6, PyBool b7]
     [Str o1, Str o2, Str o3, PyBool o4, PyBool o5, PyBool o6, PyBool o7]
     [Str t1, Str t2, Str t3, PyBool t4, PyBool t5, PyBool t6, PyBool t7] =
   [Str (if o1 \<noteq> b1 then o1 else t1), Str (if o2 \<noteq> b2 then o2 else t2),
    Str (if o3 \<noteq> b3 then o3 else t3), PyBool (if o4 \<noteq> b4 then o4 else t4),
    PyBool (if o5 \<noteq> b5 then o5 else t5), PyBool (if o6 \<noteq> b6 then o6 else t6),
    PyBool (if o7 \<noteq> b7 then o7 else t7)]"
  by (simp add: merge_row_def cell_in_def col_defs merge_text_Str merge_bool_PyBool)

lemma canonical_alice: "canonical (alice s i)"
  by (simp add: canonical_def canonical_row_def alice_def is_str_def is_bool_def col_defs)




lemma strip_words:
  "strip (py ''Alice'') = py ''Alice''" "strip (py ''Smith'') = py ''Smith''"
  "strip (py ''cv1.pdf'') = py ''cv1.pdf''" "strip (py ''alice'') = py ''alice''"
  "strip (py ''Bob'') = py ''Bob''" "strip (py ''Stone'') = py ''Stone''"
  "strip (py ''cv2.pdf'') = py ''cv2.pdf''" "strip (py ''ALICE'') = py ''ALICE''"
  by (rule strip_id; simp add: py_def isspace_def)+

lemma lower_words:
  "lower (py ''Alice'') = py ''alice''" "lower (py ''Smith'') = py ''smith''"
  "lower (py ''alice'') = py ''alice''" "lower (py ''Bob'') = py ''bob''"
  "lower (py ''Stone'') = py ''stone''" "lower (py ''ALICE'') = py ''alice''"
  by (simp_all add: py_def lower_def lower_cp_def)



lemma index_alice:
  "index_by_key (alice s i) = [(alice_key, hd (data (alice s i)))]"
  unfolding index_by_key_canonical [OF canonical_alice]
  by (simp add: alice_def key_row key_of_def key_text_def strip_words lower_words alice_key_def)



lemma keys_alice: "keys_of (alice s i) = [alice_key]"
  by (simp add: keys_of_def index_alice)




lemma merge_alice:
  "three_way_merge (alice b1 b2) (alice o1 o2) (alice t1 t2) =
     Inr (alice (if o1 \<noteq> b1 then o1 else t1) (if o2 \<noteq> b2 then o2 else t2), [])"
  by (simp add: three_way_merge_def merge_index_def keys_alice index_union_same reindex_def
      index_alice)
    (simp add: alice_def merge_row_canonical conflicts_of_def merge_text_Str cell_in_def col_defs)

section \<open>The claims on the merge and on the record key\<close>














text \<open>\<open>_key_series\<close> of \<open>utils.py\<close> does identify the two names.\<close>

lemma key_series_strips_diacritics:
  "key_series_of (Str kadri_accent) (Str (py ''Farouk'')) (Str (py ''cv.pdf'')) =
   key_series_of (Str kadri_plain) (Str (py ''Farouk'')) (Str (py ''cv.pdf''))"
  by (simp add: key_series_of_def key_text_def norm_utils_def nfkd_def decomposition_def
      combining_def kadri_accent_def kadri_plain_def py_def strip_def isspace_def)



section \<open>The claims on the flush\<close>

lemma is_str_merge_text: "is_str (fst (merge_text a b c))"
  unfolding merge_text_def Let_def fst_conv by (simp add: is_str_def split: option.split)

lemma is_bool_merge_bool: "is_bool (merge_bool a b c)"
  unfolding merge_bool_def Let_def by (simp add: is_bool_def)

lemma canonical_merge_row: "canonical_row (merge_row rb ro rt)"
  by (simp add: canonical_row_def merge_row_def col_defs is_str_merge_text is_bool_merge_bool)

lemma three_way_merge_canonical:
  assumes "three_way_merge b o' t = Inr (merged, conflicts)"
  shows "canonical merged"
  using assms
  by (auto simp: three_way_merge_def Let_def canonical_def list_all_iff canonical_merge_row
      split: sum.splits)

lemma fetch_remote_primary: "dbx_download env = Inr d \<Longrightarrow> fetch_remote env = Inr (ensure_schema d)"
  by (simp add: fetch_remote_def)

lemma fetch_remote_fallback:
  "dbx_download env = Inl e \<Longrightarrow> shared_fetch env = Inr d \<Longrightarrow> fetch_remote env = Inr (ensure_schema d)"
  by (simp add: fetch_remote_def)

lemma fetch_remote_fails:
  "dbx_download env = Inl e \<Longrightarrow> shared_fetch env = Inl e' \<Longrightarrow> fetch_remote env = Inl e'"
  by (simp add: fetch_remote_def)

lemma flush_capgemini_ok:
  assumes "fetch_remote env = Inr remote_df"
    and "three_way_merge (case base_df s of None \<Rightarrow> remote_df | Some b \<Rightarrow> b) (df s) remote_df =
      Inr (merged, conflicts)"
    and "upload_ok env (serialize_state merged)"
  shows "flush_to_disk_capgemini env ok_text err_text s =
     ((flush_flags (clock env) s)\<lparr>df := merged, base_df := Some merged\<rparr>,
      (if conflicts \<noteq> [] then [StWarning (length conflicts)] else []) @ [StToast ok_text],
      [serialize_state merged])"
  using assms ensure_schema_canonical [OF three_way_merge_canonical [OF assms(2)]]
  by (simp add: flush_to_disk_capgemini_def Let_def)

lemma flush_capgemini_upload_fails:
  assumes "fetch_remote env = Inr remote_df"
    and "three_way_merge (case base_df s of None \<Rightarrow> remote_df | Some b \<Rightarrow> b) (df s) remote_df =
      Inr (merged, conflicts)"
    and "\<not> upload_ok env (serialize_state merged)"
  shows "flush_to_disk_capgemini env ok_text err_text s =
     (flush_flags (clock env) s, [StError err_text], [serialize_state merged])"
  using assms by (simp add: flush_to_disk_capgemini_def Let_def)

lemma flush_capgemini_fetch_fails:
  assumes "fetch_remote env = Inl e"
  shows "flush_to_disk_capgemini env ok_text err_text s = (s, [StError err_text], [])"
  using assms by (simp add: flush_to_disk_capgemini_def)

lemma flush_capgemini_merge_fails:
  assumes "fetch_remote env = Inr remote_df"
    and "three_way_merge (case base_df s of None \<Rightarrow> remote_df | Some b \<Rightarrow> b) (df s) remote_df = Inl e"
  shows "flush_to_disk_capgemini env ok_text err_text s = (s, [StError err_text], [])"
  using assms by (simp add: flush_to_disk_capgemini_def Let_def)

lemma flush_schneider:
  "flush_to_disk_schneider env ok_text err_text s =
     (flush_flags (clock env) s,
      [if dbx_configured env \<and> upload_ok env (serialize_state (df s)) then StToast ok_text
       else StError err_text],
      if dbx_configured env then [serialize_state (df s)] else [])"
  by (simp add: flush_to_disk_schneider_def write_state_df_def Let_def)

lemma serialize_canonical:
  "canonical X \<Longrightarrow> serialize_state X = to_csv (map_columns astype_int BOOL_COLS X)"
  by (simp add: serialize_state_def ensure_schema_canonical)

lemma serialize_alice:
  "serialize_state (alice s i) =
     \<lparr>header = ALL_COLS,
      records = [[py ''Alice'', py ''Smith'', py ''cv1.pdf'', py (if s then ''1'' else ''0''),
                  py (if i then ''1'' else ''0''), py ''0'', py ''0'']]\<rparr>"
  unfolding serialize_canonical [OF canonical_alice]
  by (simp add: to_csv_def map_columns_def alice_def col_defs str_int_def digits.simps py_def)

lemma fetch_world: "fetch_remote (world up t) = Inr (alice False True)"
  by (simp add: fetch_remote_def world_def ensure_schema_canonical [OF canonical_alice])

text \<open>
  C2, amended. In the Capgemini app a flush fetches the remote table through the
  Dropbox API, or through the shared link when that fails, merges it with the base
  snapshot (the fetched table itself when there is no snapshot) and the working table,
  and hands the serialized merged table to the upload; when the upload succeeds the
  working table and the base snapshot become the merged table, and when it fails both
  are left as they were. When both fetches fail nothing is uploaded and the state is
  unchanged. In the Schneider app a flush hands the serialized working table to the
  upload as it is: it fetches nothing, merges nothing, and keeps no base snapshot.
\<close>

theorem flush_merges_only_in_capgemini:
  "(fetch_remote env = Inr remote_df \<and>
    three_way_merge (case base_df s of None \<Rightarrow> remote_df | Some b \<Rightarrow> b) (df s) remote_df =
      Inr (merged, conflicts) \<longrightarrow>
      snd (snd (flush_to_disk_capgemini env ok_text err_text s)) = [serialize_state merged] \<and>
      (upload_ok env (serialize_state merged) \<longrightarrow>
         df (fst (flush_to_disk_capgemini env ok_text err_text s)) = merged \<and>
         base_df (fst (flush_to_disk_capgemini env ok_text err_text s)) = Some merged) \<and>
      (\<not> upload_ok env (serialize_state merged) \<longrightarrow>
         df (fst (flush_to_disk_capgemini env ok_text err_text s)) = df s \<and>
         base_df (fst (flush_to_disk_capgemini env ok_text err_text s)) = base_df s)) \<and>
   (dbx_download env = Inr d \<longrightarrow> fetch_remote env = Inr (ensure_schema d)) \<and>
   (dbx_download env = Inl e \<and> shared_fetch env = Inr d \<longrightarrow>
      fetch_remote env = Inr (ensure_schema d)) \<and>
   (fetch_remote env = Inl e \<longrightarrow>
      flush_to_disk_capgemini env ok_text err_text s = (s, [StError err_text], [])) \<and>
   snd (snd (flush_to_disk_schneider env ok_text err_text s)) =
     (if dbx_configured env then [serialize_state (df s)] else []) \<and>
   df (fst (flush_to_disk_schneider env ok_text err_text s)) = df s \<and>
   base_df (fst (flush_to_disk_schneider env ok_text err_text s)) = base_df s"
proof -
  have a: "snd (snd (flush_to_disk_capgemini env ok_text err_text s)) = [serialize_state merged] \<and>
      (upload_ok env (serialize_state merged) \<longrightarrow>
         df (fst (flush_to_disk_capgemini env ok_text err_text s)) = merged \<and>
         base_df (fst (flush_to_disk_capgemini env ok_text err_text s)) = Some merged) \<and>
      (\<not> upload_ok env (serialize_state merged) \<longrightarrow>
         df (fst (flush_to_disk_capgemini env ok_text err_text s)) = df s \<and>
         base_df (fst (flush_to_disk_capgemini env ok_text err_text s)) = base_df s)"
    if f: "fetch_remote env = Inr remote_df"
      and m: "three_way_merge (case base_df s of None \<Rightarrow> remote_df | Some b \<Rightarrow> b) (df s) remote_df =
        Inr (merged, conflicts)"
  proof (cases "upload_ok env (serialize_state merged)")
    case True
    show ?thesis using True by (simp add: flush_capgemini_ok [OF f m True])
  next
    case False
    show ?thesis using False by (simp add: flush_capgemini_upload_fails [OF f m False] flush_flags_def)
  qed
  show ?thesis
    using a
    by (simp add: fetch_remote_primary fetch_remote_fallback flush_capgemini_fetch_fails
        flush_schneider flush_flags_def)
qed

text \<open>
  C2, as stated, fails in the Schneider app. The working table has \<open>seen\<close> set, the
  remote table has \<open>intend_view\<close> set by someone else: the merge of the two has both
  flags, but the flush uploads the working table alone and leaves it unmerged.
\<close>

theorem schneider_flush_does_not_merge:
  "df session0 = alice True False \<and>
   three_way_merge (alice False False) (alice True False) (alice False True) =
     Inr (alice True True, []) \<and>
   snd (snd (flush_to_disk_schneider (world True 1) ''Saved'' ''Save failed'' session0)) =
     [serialize_state (alice True False)] \<and>
   serialize_state (alice True False) \<noteq> serialize_state (alice True True) \<and>
   df (fst (flush_to_disk_schneider (world True 1) ''Saved'' ''Save failed'' session0)) =
     alice True False"
  by (simp add: merge_alice flush_schneider flush_flags_def session0_def world_def serialize_alice
      py_def)

text \<open>The Capgemini part at the same session and remote table, with a working upload.\<close>

theorem flush_merges_only_in_capgemini_witness:
  "fetch_remote (world True 1) = Inr (alice False True) \<and>
   three_way_merge (case base_df session0 of None \<Rightarrow> alice False True | Some b \<Rightarrow> b) (df session0)
     (alice False True) = Inr (alice True True, []) \<and>
   upload_ok (world True 1) (serialize_state (alice True True)) \<and>
   snd (snd (flush_to_disk_capgemini (world True 1) ''Saved'' ''Save failed'' session0)) =
     [serialize_state (alice True True)] \<and>
   df (fst (flush_to_disk_capgemini (world True 1) ''Saved'' ''Save failed'' session0)) =
     alice True True \<and>
   base_df (fst (flush_to_disk_capgemini (world True 1) ''Saved'' ''Save failed'' session0)) =
     Some (alice True True)"
proof -
  have f: "fetch_remote (world True 1) = Inr (alice False True)" by (rule fetch_world)
  have m: "three_way_merge (case base_df session0 of None \<Rightarrow> alice False True | Some b \<Rightarrow> b)
      (df session0) (alice False True) = Inr (alice True True, [])"
    by (simp add: session0_def merge_alice)
  have u: "upload_ok (world True 1) (serialize_state (alice True True))"
    by (simp add: world_def)
  show ?thesis
    using flush_merges_only_in_capgemini [of "world True 1" "alice False True" session0
        "alice True True" "[]" "''Saved''" "''Save failed''"] f m u
    by simp
qed

text \<open>
  C4, amended. When the upload of a flush fails, in either app, the working table and
  the base snapshot are unchanged and the failure is shown as one \<open>st.error\<close> notice;
  the flush has nevertheless set \<open>buffer_dirty\<close> to \<open>False\<close> and \<open>last_batch_write\<close>
  to the current time, as its docstring in the Schneider app says (reset buffer flags).
\<close>

theorem failed_upload_keeps_tables_clears_dirty:
  "(fetch_remote env = Inr remote_df \<and>
    three_way_merge (case base_df s of None \<Rightarrow> remote_df | Some b \<Rightarrow> b) (df s) remote_df =
      Inr (merged, conflicts) \<and>
    \<not> upload_ok env (serialize_state merged) \<longrightarrow>
      df (fst (flush_to_disk_capgemini env ok_text err_text s)) = df s \<and>
      base_df (fst (flush_to_disk_capgemini env ok_text err_text s)) = base_df s \<and>
      fst (snd (flush_to_disk_capgemini env ok_text err_text s)) = [StError err_text] \<and>
      buffer_dirty (fst (flush_to_disk_capgemini env ok_text err_text s)) = False \<and>
      last_batch_write (fst (flush_to_disk_capgemini env ok_text err_text s)) = clock env) \<and>
   (\<not> fst (write_state_df env (df s)) \<longrightarrow>
      df (fst (flush_to_disk_schneider env ok_text err_text s)) = df s \<and>
      base_df (fst (flush_to_disk_schneider env ok_text err_text s)) = base_df s \<and>
      fst (snd (flush_to_disk_schneider env ok_text err_text s)) = [StError err_text] \<and>
      buffer_dirty (fst (flush_to_disk_schneider env ok_text err_text s)) = False \<and>
      last_batch_write (fst (flush_to_disk_schneider env ok_text err_text s)) = clock env)"
  by (auto simp: flush_capgemini_upload_fails flush_schneider flush_flags_def write_state_df_def)

text \<open>
  C4, as stated, fails: the session has pending edits (\<open>buffer_dirty\<close>), the upload
  fails, and after the flush of either app the edits are no longer marked pending.
\<close>

theorem failed_flush_clears_dirty:
  "buffer_dirty session0 \<and>
   \<not> fst (write_state_df (world False 1) (df session0)) \<and>
   \<not> buffer_dirty (fst (flush_to_disk_schneider (world False 1) ''Saved'' ''Save failed'' session0)) \<and>
   \<not> buffer_dirty (fst (flush_to_disk_capgemini (world False 1) ''Saved'' ''Save failed'' session0))"
proof -
  have m: "three_way_merge (case base_df session0 of None \<Rightarrow> alice False True | Some b \<Rightarrow> b)
      (df session0) (alice False True) = Inr (alice True True, [])"
    by (simp add: session0_def merge_alice)
  have u: "\<not> upload_ok (world False 1) (serialize_state (alice True True))"
    by (simp add: world_def)
  show ?thesis
    by (simp add: flush_capgemini_upload_fails [OF fetch_world m u] flush_schneider flush_flags_def
        write_state_df_def) (simp add: session0_def world_def)
qed

text \<open>The hypotheses of \<open>failed_upload_keeps_tables_clears_dirty\<close> at a concrete session.\<close>

theorem failed_upload_keeps_tables_clears_dirty_witness:
  "fetch_remote (world False 1) = Inr (alice False True) \<and>
   three_way_merge (case base_df session0 of None \<Rightarrow> alice False True | Some b \<Rightarrow> b) (df session0)
     (alice False True) = Inr (alice True True, []) \<and>
   \<not> upload_ok (world False 1) (serialize_state (alice True True)) \<and>
   \<not> fst (write_state_df (world False 1) (df session0)) \<and>
   df (fst (flush_to_disk_capgemini (world False 1) ''Saved'' ''Save failed'' session0)) =
     alice True False \<and>
   base_df (fst (flush_to_disk_capgemini (world False 1) ''Saved'' ''Save failed'' session0)) =
     Some (alice False False) \<and>
   fst (snd (flush_to_disk_capgemini (world False 1) ''Saved'' ''Save failed'' session0)) =
     [StError ''Save failed''] \<and>
   df (fst (flush_to_disk_schneider (world False 1) ''Saved'' ''Save failed'' session0)) =
     alice True False \<and>
   fst (snd (flush_to_disk_schneider (world False 1) ''Saved'' ''Save failed'' session0)) =
     [StError ''Save failed'']"
proof -
  have f: "fetch_remote (world False 1) = Inr (alice False True)" by (rule fetch_world)
  have m: "three_way_merge (case base_df session0 of None \<Rightarrow> alice False True | Some b \<Rightarrow> b)
      (df session0) (alice False True) = Inr (alice True True, [])"
    by (simp add: session0_def merge_alice)
  have u: "\<not> upload_ok (world False 1) (serialize_state (alice True True))"
    by (simp add: world_def)
  have w: "\<not> fst (write_state_df (world False 1) (df session0))"
    by (simp add: write_state_df_def world_def)
  have s: "df session0 = alice True False" "base_df session0 = Some (alice False False)"
    by (simp_all add: session0_def)
  show ?thesis
    using failed_upload_keeps_tables_clears_dirty [of "world False 1" "alice False True" session0
        "alice True True" "[]" "''Saved''" "''Save failed''"] f m u w s
    by simp
qed

section \<open>The claims on the save policy\<close>













section \<open>The claims on the persisted format\<close>

lemma ensure_row_shape:
  "ensure_row T r =
     [ensure_text T r FIRST, ensure_text T r LAST, ensure_text T r FILE,
      ensure_bool T r SEEN, ensure_bool T r INTEND, ensure_bool T r SAVE, ensure_bool T r CONT]"
  by (simp add: ensure_row_def TEXT_COLS_def BOOL_COLS_def)

lemma ensure_bool_flag: "ensure_bool T r c = PyBool (ensured_flag T r c)"
  by (simp add: ensure_bool_def ensured_flag_def)

lemma to_csv_bit: "to_csv_field (astype_int (PyBool b)) = bit b"
  by (simp add: bit_def str_int_def digits.simps)

lemma bit_literal: "is_int_literal (bit b)"
  by (simp add: bit_def is_int_literal_def is_digit_def)

lemma coerce_flag_bit: "coerce_flag (PyInt (int_of_literal (bit b))) = b"
  by (cases b)
    (simp_all add: bit_def int_of_literal_def nat_of_digits_def coerce_flag_def flag_map_def
      str_int_def digits.simps py_def strip_def lower_def lower_cp_def isspace_def)

lemma serialize_state_rows:
  "serialize_state T = \<lparr>header = ALL_COLS, records = map (stored_row T) (data T)\<rparr>"
  by (simp add: serialize_state_def to_csv_def map_columns_def ensure_schema_def ensure_row_shape
      ensure_bool_flag stored_row_def to_csv_bit [symmetric] col_defs)

lemma int_column_flags:
  assumes "data T \<noteq> []" "j \<in> {3, 4, 5, 6}"
  shows "int_column (serialize_state T) j"
  using assms
  by (auto simp: int_column_def serialize_state_rows list_all_iff stored_row_def field_at_def
      bit_literal)

lemma upt7: "[0..<length ALL_COLS] = [0, 1, 2, 3, 4, 5, 6]"
  by (simp add: col_defs upt_rec)

lemma read_back_row:
  assumes "data T \<noteq> []"
  shows "drop 3 (ensure_row (read_csv (serialize_state T))
           (map (\<lambda>j. parse_field (int_column (serialize_state T) j) (field_at (stored_row T r) j))
              [0..<length ALL_COLS])) =
         drop 3 (ensure_row T r)"
proof -
  have c: "columns (read_csv (serialize_state T)) = ALL_COLS"
    by (simp add: read_csv_def serialize_state_rows)
  have i: "int_column (serialize_state T) 3" "int_column (serialize_state T) 4"
    "int_column (serialize_state T) 5" "int_column (serialize_state T) 6"
    using int_column_flags [OF assms] by simp_all
  show ?thesis
    unfolding upt7
    by (simp add: ensure_row_shape ensure_bool_def c cell_at_def cell_in_def col_defs i
        parse_field_def field_at_def stored_row_def coerce_flag_bit)
      (simp add: ensured_flag_def ensure_bool_def cell_at_def cell_in_def col_defs)
qed

text \<open>
  C8, amended. For every table \<open>T\<close>, writing the normalized table in the persisted
  format (header row, flags as 0 and 1), reading it back and normalizing again gives a
  table with the canonical columns, as many rows, and in every row the same four flags
  (the cells after the three text cells) as the normalized \<open>T\<close>. Nothing is said of the
  text cells: they come back as the reader infers them.
\<close>

theorem persisted_flags_round_trip:
  "columns (ensure_schema (read_csv (serialize_state (ensure_schema T)))) = ALL_COLS \<and>
   map (drop 3) (data (ensure_schema (read_csv (serialize_state (ensure_schema T))))) =
   map (drop 3) (data (ensure_schema T))"
proof -
  have s: "serialize_state (ensure_schema T) = serialize_state T"
    using ensure_schema_idempotent [of T] by (simp add: serialize_state_def)
  have "map (drop 3) (data (ensure_schema (read_csv (serialize_state T)))) =
      map (drop 3) (data (ensure_schema T))"
  proof (cases "data T = []")
    case True
    then show ?thesis by (simp add: ensure_schema_def read_csv_def serialize_state_rows)
  next
    case False
    define R where "R = read_csv (serialize_state T)"
    define P where "P = (\<lambda>r. map (\<lambda>j. parse_field (int_column (serialize_state T) j)
        (field_at (stored_row T r) j)) [0..<length ALL_COLS])"
    have d: "data R = map P (data T)"
      by (simp add: R_def P_def read_csv_def serialize_state_rows comp_def)
    have e: "drop 3 (ensure_row R (P r)) = drop 3 (ensure_row T r)" for r
      unfolding R_def P_def by (rule read_back_row [OF False])
    have "map (drop 3) (data (ensure_schema R)) = map (\<lambda>r. drop 3 (ensure_row R (P r))) (data T)"
      by (simp add: ensure_schema_def d comp_def)
    also have "\<dots> = map (\<lambda>r. drop 3 (ensure_row T r)) (data T)"
      by (simp add: e)
    also have "\<dots> = map (drop 3) (data (ensure_schema T))"
      by (simp add: ensure_schema_def comp_def)
    finally show ?thesis by (simp add: R_def)
  qed
  then show ?thesis by (simp add: s) (simp add: ensure_schema_def)
qed

lemma canonical_no_file: "canonical no_file"
  by (simp add: canonical_def canonical_row_def no_file_def is_str_def is_bool_def col_defs)

lemma serialize_no_file:
  "serialize_state no_file =
     \<lparr>header = ALL_COLS,
      records = [[py ''Alice'', py ''Smith'', [], [49], [48], [48], [48]]]\<rparr>"
  unfolding serialize_canonical [OF canonical_no_file]
  by (simp add: to_csv_def map_columns_def no_file_def col_defs str_int_def digits.simps)

lemma read_no_file:
  "read_csv \<lparr>header = ALL_COLS,
      records = [[py ''Alice'', py ''Smith'', [], [49], [48], [48], [48]]]\<rparr> =
     \<lparr>columns = ALL_COLS,
      data = [[Str (py ''Alice''), Str (py ''Smith''), NaN, PyInt 1, PyInt 0, PyInt 0, PyInt 0]]\<rparr>"
  unfolding read_csv_def
  by (simp add: upt7 int_column_def field_at_def is_int_literal_def is_digit_def parse_field_def
      int_of_literal_def nat_of_digits_def na_values_def py_def)

lemma coerce_flag_ints: "coerce_flag (PyInt 1)" "\<not> coerce_flag (PyInt 0)"
  by (simp_all add: coerce_flag_def flag_map_def str_int_def digits.simps py_def strip_def
      lower_def lower_cp_def isspace_def)

text \<open>
  C8, as stated, fails: a normalized table whose file reference is the empty string is
  written with an empty field, which is read back as a missing value; the normalizer
  does not touch text cells, so the table read back differs from the one written.
\<close>

theorem empty_text_does_not_round_trip:
  "ensure_schema no_file = no_file \<and>
   ensure_schema (read_csv (serialize_state (ensure_schema no_file))) =
     \<lparr>columns = ALL_COLS,
      data = [[Str (py ''Alice''), Str (py ''Smith''), NaN,
               PyBool True, PyBool False, PyBool False, PyBool False]]\<rparr> \<and>
   ensure_schema (read_csv (serialize_state (ensure_schema no_file))) \<noteq> ensure_schema no_file"
proof -
  have e: "ensure_schema no_file = no_file" by (rule ensure_schema_canonical [OF canonical_no_file])
  have r: "ensure_schema (read_csv (serialize_state no_file)) =
     \<lparr>columns = ALL_COLS,
      data = [[Str (py ''Alice''), Str (py ''Smith''), NaN,
               PyBool True, PyBool False, PyBool False, PyBool False]]\<rparr>"
    unfolding serialize_no_file read_no_file
    by (simp add: ensure_schema_def ensure_row_shape ensure_text_def ensure_bool_def cell_at_def
        cell_in_def col_defs coerce_flag_ints)
  show ?thesis unfolding e r by (simp add: no_file_def)
qed

end
